theory Spec2Isabelle
  imports Complex_Main "HOL-Library.Sublist" "HOL-Library.Word"
begin

section \<open>The spatial index of \<open>project.cpp\<close>\<close>

text \<open>
  The embedding follows \<open>src/project.cpp\<close>: \<open>struct Rectangle\<close>, \<open>class Property\<close>,
  \<open>class RTreeNode\<close> and \<open>class RTree\<close>.

  Numbers. A value of type \<open>double\<close> is a real number (NaN and the infinities are
  outside the model). The comparisons of the source (\<open><\<close>, \<open>>\<close>, \<open><=\<close>, \<open>>=\<close>,
  \<open>std::min\<close>, \<open>std::max\<close>) are exact on doubles and are the comparisons of the reals.
  The arithmetic is not: \<open>+\<close>, \<open>-\<close>, \<open>/\<close>, \<open>pow\<close> and \<open>sqrt\<close> deliver the rounded results
  of the platform, so these operations are parameters of the model (a \<open>platform\<close>),
  and nothing is assumed about them but what a theorem states. A C++ \<open>int\<close> is a
  32-bit signed integer.

  Objects. The index stores \<open>Property*\<close>, never a copy of a \<open>Property\<close>. A pointer is an
  address (\<open>prop_ptr\<close>) and the objects live in a store that maps each address to the
  \<open>Property\<close> it holds. No function of the index writes through a \<open>Property*\<close>, so the
  store is an argument of the functions that read \<open>prop->bbox\<close>, \<open>prop->price\<close>, ... and
  is never returned. Nodes are owned by their parent (\<open>new RTreeNode\<close> is called only to
  push the fresh node into \<open>children\<close>), so the node graph is a tree.
\<close>

subsection \<open>Rectangle\<close>

record Rectangle =
  x_min :: real
  y_min :: real
  x_max :: real
  y_max :: real

text \<open>The constructor \<open>Rectangle(x1, y1, x2, y2)\<close>.\<close>

definition mkRectangle :: "real \<Rightarrow> real \<Rightarrow> real \<Rightarrow> real \<Rightarrow> Rectangle" where
  "mkRectangle x1 y1 x2 y2 = \<lparr>x_min = x1, y_min = y1, x_max = x2, y_max = y2\<rparr>"

text \<open>\<open>bool Rectangle::intersects(const Rectangle& other) const\<close>; the first argument
  is \<open>*this\<close>.\<close>

definition intersects :: "Rectangle \<Rightarrow> Rectangle \<Rightarrow> bool" where
  "intersects this other \<longleftrightarrow>
     \<not> (x_min this > x_max other \<or> x_max this < x_min other \<or>
        y_min this > y_max other \<or> y_max this < y_min other)"

subsection \<open>Property\<close>

record Property =
  location :: string
  price :: real
  area :: real
  bedrooms :: int
  bbox :: Rectangle

type_synonym prop_ptr = nat

type_synonym store = "prop_ptr \<Rightarrow> Property"

subsection \<open>RTreeNode\<close>

datatype RTreeNode =
  RTreeNode (children: "RTreeNode list") (leaf_properties: "prop_ptr list")
            (bounding_box: Rectangle) (is_leaf: bool)

text \<open>The constructor \<open>RTreeNode(Rectangle bbox, bool leaf = false)\<close>: both vectors
  start empty.\<close>

definition new_RTreeNode :: "Rectangle \<Rightarrow> bool \<Rightarrow> RTreeNode" where
  "new_RTreeNode box leaf = RTreeNode [] [] box leaf"

text \<open>One round of either loop of \<open>updateBoundingBox\<close>: the four running values
  \<open>x_min, y_min, x_max, y_max\<close>, held together as a rectangle, are folded with one
  more box.\<close>

definition widen :: "Rectangle \<Rightarrow> Rectangle \<Rightarrow> Rectangle" where
  "widen acc b =
     mkRectangle (min (x_min acc) (x_min b)) (min (y_min acc) (y_min b))
                 (max (x_max acc) (x_max b)) (max (y_max acc) (y_max b))"

definition updateBoundingBox :: "store \<Rightarrow> RTreeNode \<Rightarrow> RTreeNode" where
  "updateBoundingBox h n =
     (if children n = [] \<and> leaf_properties n = [] then n
      else
        let start = mkRectangle (x_min (bounding_box n)) (y_min (bounding_box n))
                                (x_max (bounding_box n)) (y_max (bounding_box n));
            box = (if is_leaf n
                   then fold (\<lambda>prop acc. widen acc (bbox (h prop))) (leaf_properties n) start
                   else fold (\<lambda>node acc. widen acc (bounding_box node)) (children n) start)
        in RTreeNode (children n) (leaf_properties n) box (is_leaf n))"

text \<open>\<open>void RTreeNode::insert(Property* child)\<close>.\<close>

definition RTreeNode_insert :: "store \<Rightarrow> RTreeNode \<Rightarrow> prop_ptr \<Rightarrow> RTreeNode" where
  "RTreeNode_insert h n child =
     (if is_leaf n
      then RTreeNode (children n) (leaf_properties n @ [child]) (bounding_box n) (is_leaf n)
      else updateBoundingBox h
             (RTreeNode (children n @ [new_RTreeNode (bbox (h child)) False])
                        (leaf_properties n) (bounding_box n) (is_leaf n)))"

subsection \<open>RTree\<close>

record RTree =
  root :: RTreeNode

text \<open>The constructor \<open>RTree()\<close>.\<close>

definition RTree_new :: RTree where
  "RTree_new = \<lparr>root = new_RTreeNode (mkRectangle 0 0 100 100) True\<rparr>"

text \<open>\<open>void RTree::insert(Property* prop)\<close>.\<close>

definition RTree_insert :: "store \<Rightarrow> RTree \<Rightarrow> prop_ptr \<Rightarrow> RTree" where
  "RTree_insert h t prop = t\<lparr>root := RTreeNode_insert h (root t) prop\<rparr>"

text \<open>\<open>queryRecursive(node, range, results)\<close>: \<open>results\<close> is passed by reference and
  only ever grows by \<open>push_back\<close>; the function returns its new value.\<close>

fun queryRecursive :: "store \<Rightarrow> RTreeNode \<Rightarrow> Rectangle \<Rightarrow> prop_ptr list \<Rightarrow> prop_ptr list" where
  "queryRecursive h (RTreeNode cs props box leaf) rng results =
     (if \<not> intersects box rng then results
      else if leaf
      then fold (\<lambda>prop res. if intersects rng (bbox (h prop)) then res @ [prop] else res)
             props results
      else fold (\<lambda>child res. queryRecursive h child rng res) cs results)"

text \<open>\<open>std::vector<Property*> RTree::query(Rectangle range)\<close>.\<close>

definition query :: "store \<Rightarrow> RTree \<Rightarrow> Rectangle \<Rightarrow> prop_ptr list" where
  "query h t rng = queryRecursive h (root t) rng []"

text \<open>
  The operations of the platform on doubles: \<open>a + b\<close>, \<open>a - b\<close>, \<open>a / b\<close>,
  \<open>pow(a, 2)\<close> and \<open>sqrt(a)\<close>, and the \<open>int\<close> that the conversion of a \<open>double\<close>
  delivers where C++ leaves it undefined (see \<open>double_to_int\<close>).
\<close>

record platform =
  fl_add :: "real \<Rightarrow> real \<Rightarrow> real"
  fl_sub :: "real \<Rightarrow> real \<Rightarrow> real"
  fl_div :: "real \<Rightarrow> real \<Rightarrow> real"
  fl_pow2 :: "real \<Rightarrow> real"
  fl_sqrt :: "real \<Rightarrow> real"
  out_of_range :: "real \<Rightarrow> 32 word"

text \<open>
  \<open>calculateDistance\<close> stores the square root in an \<open>int\<close>:
  \<open>int distance = sqrt(pow((x2-x1),2) + pow((y2-y1),2));\<close>. The conversion of a
  \<open>double\<close> to \<open>int\<close> discards the fractional part (truncation toward zero). C++
  defines it only when the truncated value is representable in \<open>int\<close>; otherwise the
  \<open>int\<close> is the one the platform delivers (the conversion instruction of x86-64
  delivers \<open>INT_MIN\<close>).
\<close>

definition INT_MIN :: int where
  "INT_MIN = - 2147483648"

definition INT_MAX :: int where
  "INT_MAX = 2147483647"

definition trunc :: "real \<Rightarrow> int" where
  "trunc r = (if 0 \<le> r then \<lfloor>r\<rfloor> else \<lceil>r\<rceil>)"

definition double_to_int :: "platform \<Rightarrow> real \<Rightarrow> int" where
  "double_to_int A r =
     (if INT_MIN \<le> trunc r \<and> trunc r \<le> INT_MAX then trunc r
      else sint (out_of_range A r))"

text \<open>\<open>double calculateDistance(double x1, double y1, double x2, double y2)\<close>: the
  \<open>int\<close> is converted back to \<open>double\<close> by \<open>return distance;\<close>, exactly.\<close>

definition calculateDistance :: "platform \<Rightarrow> real \<Rightarrow> real \<Rightarrow> real \<Rightarrow> real \<Rightarrow> real" where
  "calculateDistance A x1 y1 x2 y2 =
     (let distance = double_to_int A
                       (fl_sqrt A (fl_add A (fl_pow2 A (fl_sub A x2 x1))
                                            (fl_pow2 A (fl_sub A y2 y1))))
      in real_of_int distance)"

text \<open>\<open>std::vector<Property*> RTree::queryNearLocation(x, y, distance_km, max_price,
  min_area, min_bedrooms)\<close>: the loop over \<open>properties\<close> pushes onto \<open>results\<close>.\<close>

definition queryNearLocation ::
  "platform \<Rightarrow> store \<Rightarrow> RTree \<Rightarrow> real \<Rightarrow> real \<Rightarrow> real \<Rightarrow> real \<Rightarrow> real \<Rightarrow> int \<Rightarrow> prop_ptr list" where
  "queryNearLocation A h t x y distance_km max_price min_area min_bedrooms =
     (let search_area = mkRectangle (fl_sub A x distance_km) (fl_sub A y distance_km)
                                    (fl_add A x distance_km) (fl_add A y distance_km);
          properties = query h t search_area
      in fold (\<lambda>prop results.
                 let dist = calculateDistance A x y
                              (fl_div A (fl_add A (x_min (bbox (h prop))) (x_max (bbox (h prop)))) 2)
                              (fl_div A (fl_add A (y_min (bbox (h prop))) (y_max (bbox (h prop)))) 2)
                 in if dist \<le> distance_km \<and> price (h prop) \<le> max_price \<and>
                       area (h prop) \<ge> min_area \<and> bedrooms (h prop) \<ge> min_bedrooms
                    then results @ [prop] else results)
           properties [])"

text \<open>Names for three values of these functions: the double that line 144 converts, the
  one it converts for a candidate with bounding box \<open>b\<close> (line 111 passes the computed
  centroid), and the rectangle that line 107 builds.\<close>

definition computed_distance :: "platform \<Rightarrow> real \<Rightarrow> real \<Rightarrow> real \<Rightarrow> real \<Rightarrow> real" where
  "computed_distance A x1 y1 x2 y2 =
     fl_sqrt A (fl_add A (fl_pow2 A (fl_sub A x2 x1)) (fl_pow2 A (fl_sub A y2 y1)))"

definition computed_centroid_distance :: "platform \<Rightarrow> real \<Rightarrow> real \<Rightarrow> Rectangle \<Rightarrow> real" where
  "computed_centroid_distance A x y b =
     computed_distance A x y (fl_div A (fl_add A (x_min b) (x_max b)) 2)
                             (fl_div A (fl_add A (y_min b) (y_max b)) 2)"

definition search_square :: "platform \<Rightarrow> real \<Rightarrow> real \<Rightarrow> real \<Rightarrow> Rectangle" where
  "search_square A x y r =
     mkRectangle (fl_sub A x r) (fl_sub A y r) (fl_add A x r) (fl_add A y r)"

subsection \<open>Sequences of calls\<close>

text \<open>The index after the calls \<open>insert(p)\<close> for the pointers \<open>p\<close> of a list, in its
  order, and the index a program reaches from \<open>RTree()\<close> that way. The store is the one
  that holds all the objects: none of them is written after its construction.\<close>

definition inserts :: "store \<Rightarrow> RTree \<Rightarrow> prop_ptr list \<Rightarrow> RTree" where
  "inserts h t ps = fold (\<lambda>p t'. RTree_insert h t' p) ps t"

definition index_of :: "store \<Rightarrow> prop_ptr list \<Rightarrow> RTree" where
  "index_of h ps = inserts h RTree_new ps"

subsection \<open>The specification's notions\<close>

text \<open>The centroid of a bounding box, \<open>((x_min+x_max)/2, (y_min+y_max)/2)\<close>, the
  Euclidean distance of two points and of a point from the centroid, and that distance
  truncated to an integer: all of them over the reals, with no rounding and no bound.\<close>

definition centroid :: "Rectangle \<Rightarrow> real \<times> real" where
  "centroid b = ((x_min b + x_max b) / 2, (y_min b + y_max b) / 2)"

definition euclidean_distance :: "real \<Rightarrow> real \<Rightarrow> real \<Rightarrow> real \<Rightarrow> real" where
  "euclidean_distance x1 y1 x2 y2 = sqrt ((x2 - x1)\<^sup>2 + (y2 - y1)\<^sup>2)"

definition centroid_distance :: "real \<Rightarrow> real \<Rightarrow> Rectangle \<Rightarrow> real" where
  "centroid_distance x y b = sqrt ((fst (centroid b) - x)\<^sup>2 + (snd (centroid b) - y)\<^sup>2)"




text \<open>What a call needs from the platform for the specification's words to apply: the
  corners of the search square are computed without rounding error, and the double
  computed for a candidate truncates to the integer that the exact centroid distance
  truncates to, one that an \<open>int\<close> can hold.\<close>

definition square_exact :: "platform \<Rightarrow> real \<Rightarrow> real \<Rightarrow> real \<Rightarrow> bool" where
  "square_exact A x y r \<longleftrightarrow>
     search_square A x y r = mkRectangle (x - r) (y - r) (x + r) (y + r)"


text \<open>The listings of a sequence that match a range (their bounding box intersects it),
  in the order of the sequence.\<close>

definition matching :: "store \<Rightarrow> Rectangle \<Rightarrow> prop_ptr list \<Rightarrow> prop_ptr list" where
  "matching h rng ps = filter (\<lambda>p. intersects rng (bbox (h p))) ps"

text \<open>A range large enough for a sequence of listings: it starts as the initial extent
  \<open>(0,0)-(100,100)\<close> and is widened by both corners of every bounding box.\<close>

definition covering_range :: "store \<Rightarrow> prop_ptr list \<Rightarrow> Rectangle" where
  "covering_range h ps =
     fold (\<lambda>p acc. widen (widen acc (bbox (h p)))
                      (mkRectangle (x_max (bbox (h p))) (y_max (bbox (h p)))
                                   (x_min (bbox (h p))) (y_min (bbox (h p)))))
       ps (mkRectangle 0 0 100 100)"

subsection \<open>Example objects\<close>

definition listing :: "real \<Rightarrow> real \<Rightarrow> real \<Rightarrow> real \<Rightarrow> Property" where
  "listing x1 y1 x2 y2 =
     \<lparr>location = ''A'', price = 100000, area = 80, bedrooms = 2,
      bbox = mkRectangle x1 y1 x2 y2\<rparr>"

text \<open>A store that holds the same object at every address, and one that holds three
  objects at the addresses 1, 2 and 3.\<close>

definition store_of :: "Property \<Rightarrow> store" where
  "store_of v = (\<lambda>p. v)"

definition store3 :: store where
  "store3 = (\<lambda>p. if p = 1 then listing 10 10 20 20
                  else if p = 2 then listing 30 30 40 40
                  else listing 50 50 60 60)"




text \<open>A platform whose arithmetic has no rounding error, with a given conversion out of
  range; and the one among them that delivers \<open>INT_MIN\<close> there, as x86-64 does. In the
  examples at the distances 3, 5.5, 7 and 5000000000 every intermediate value is a
  double, so that the operations of IEEE 754 deliver these same values; the examples at
  4.9 and 5.9 are the specification's own.\<close>

definition exact_platform :: "(real \<Rightarrow> 32 word) \<Rightarrow> platform" where
  "exact_platform f =
     \<lparr>fl_add = (\<lambda>a b. a + b), fl_sub = (\<lambda>a b. a - b), fl_div = (\<lambda>a b. a / b),
      fl_pow2 = (\<lambda>a. a\<^sup>2), fl_sqrt = sqrt, out_of_range = f\<rparr>"

definition x86_exact :: platform where
  "x86_exact = exact_platform (\<lambda>r. word_of_int INT_MIN)"

text \<open>
  A platform that rounds as IEEE 754 does (to the nearest double) in four places, and
  has no rounding error elsewhere:
  \<^item> \<open>(1 + 2^-52) + 3 * 2^-54\<close>: the doubles around the sum \<open>1 + 3.5 * 2^-53\<close> are
    \<open>1 + 2 * 2^-53\<close> and \<open>1 + 4 * 2^-53\<close>, the second is nearer;
  \<^item> \<open>(1 + 2^-52) - 3 * 2^-54\<close>: the doubles around \<open>1 + 0.5 * 2^-53\<close> are \<open>1\<close> and
    \<open>1 + 2 * 2^-53\<close>, the first is nearer;
  \<^item> \<open>pow(4 - 2^-51, 2)\<close>: the square is \<open>16 - 2^-48 + 2^-102\<close>, and the doubles below
    16 are \<open>2^-49\<close> apart, so it is rounded to \<open>16 - 2^-48\<close>;
  \<^item> \<open>sqrt(25 - 2^-48)\<close>: the root is about \<open>5 - 0.4 * 2^-50\<close>, and the doubles below 5
    are \<open>2^-50\<close> apart, so it is rounded to 5.
  The two examples that use it meet no other value that is not a double.
\<close>

definition ieee_sample :: platform where
  "ieee_sample =
     \<lparr>fl_add = (\<lambda>a b. if a = 1 + 1 / 2 ^ 52 \<and> b = 3 / 2 ^ 54 then 1 + 1 / 2 ^ 51 else a + b),
      fl_sub = (\<lambda>a b. if a = 1 + 1 / 2 ^ 52 \<and> b = 3 / 2 ^ 54 then 1 else a - b),
      fl_div = (\<lambda>a b. a / b),
      fl_pow2 = (\<lambda>a. if a = 4 - 1 / 2 ^ 51 then 16 - 1 / 2 ^ 48 else a\<^sup>2),
      fl_sqrt = (\<lambda>a. if a = 25 - 1 / 2 ^ 48 then 5 else sqrt a),
      out_of_range = (\<lambda>r. word_of_int INT_MIN)\<rparr>"

section \<open>Properties of the loops\<close>

text \<open>A loop that pushes the elements passing a test onto a vector appends the
  filtered sequence to it.\<close>

lemma fold_push_filter:
  "fold (\<lambda>x res. if P x then res @ [x] else res) xs acc = acc @ filter P xs"
  by (induction xs arbitrary: acc) simp_all

text \<open>\<open>queryRecursive\<close> only appends to \<open>results\<close>.\<close>

lemma queryRecursive_results:
  "queryRecursive h n rng results = results @ queryRecursive h n rng []"
proof (induction h n rng results rule: queryRecursive.induct)
  case (1 h cs props box leaf rng results)
  have kids: "fold (\<lambda>child res. queryRecursive h child rng res) ds acc =
              acc @ fold (\<lambda>child res. queryRecursive h child rng res) ds []"
    if "set ds \<subseteq> set cs" "\<not> \<not> intersects box rng" "\<not> leaf" for ds acc
    using that
  proof (induction ds arbitrary: acc rule: rev_induct)
    case Nil
    then show ?case by simp
  next
    case (snoc d ds)
    have d: "d \<in> set cs" using snoc.prems by simp
    have step: "queryRecursive h d rng r = r @ queryRecursive h d rng []" for r
      using "1.IH" [OF snoc.prems(2) snoc.prems(3) d] .
    have "fold (\<lambda>child res. queryRecursive h child rng res) (ds @ [d]) acc =
          queryRecursive h d rng (fold (\<lambda>child res. queryRecursive h child rng res) ds acc)"
      by simp
    also have "\<dots> = fold (\<lambda>child res. queryRecursive h child rng res) ds acc @ queryRecursive h d rng []"
      by (rule step)
    also have "\<dots> = acc @ fold (\<lambda>child res. queryRecursive h child rng res) ds [] @ queryRecursive h d rng []"
      using snoc.IH [of acc] snoc.prems by simp
    also have "\<dots> = acc @ fold (\<lambda>child res. queryRecursive h child rng res) (ds @ [d]) []"
      using step [of "fold (\<lambda>child res. queryRecursive h child rng res) ds []"] by simp
    finally show ?case .
  qed
  show ?case
  proof (cases "intersects box rng")
    case False
    then show ?thesis by simp
  next
    case True
    show ?thesis
    proof (cases leaf)
      case True
      with \<open>intersects box rng\<close> show ?thesis by (simp add: fold_push_filter)
    next
      case False
      with \<open>intersects box rng\<close> kids [of cs results] show ?thesis by simp
    qed
  qed
qed

lemma queryRecursive_pruned:
  "\<not> intersects (bounding_box n) rng \<Longrightarrow> queryRecursive h n rng results = results"
  by (cases n) simp

text \<open>The index after a sequence of inserts: the root is the leaf of the constructor,
  with its box, holding the pointers in the order of the calls.\<close>

lemma RTreeNode_insert_leaf:
  "RTreeNode_insert h (RTreeNode cs props box True) p = RTreeNode cs (props @ [p]) box True"
  by (simp add: RTreeNode_insert_def)

lemma root_inserts:
  "is_leaf (root t) \<Longrightarrow>
   root (inserts h t ps) =
     RTreeNode (children (root t)) (leaf_properties (root t) @ ps) (bounding_box (root t)) True"
proof (induction ps arbitrary: t)
  case Nil
  then show ?case by (cases "root t") (simp add: inserts_def)
next
  case (Cons p ps)
  have "inserts h t (p # ps) = inserts h (RTree_insert h t p) ps"
    by (simp add: inserts_def)
  moreover have "is_leaf (root (RTree_insert h t p))"
    using Cons.prems by (simp add: RTree_insert_def RTreeNode_insert_def)
  ultimately show ?case
    using Cons.IH [of "RTree_insert h t p"] Cons.prems
    by (simp add: RTree_insert_def RTreeNode_insert_def)
qed

lemma root_index_of:
  "root (index_of h ps) = RTreeNode [] ps (mkRectangle 0 0 100 100) True"
  using root_inserts [of RTree_new h ps]
  by (simp add: index_of_def RTree_new_def new_RTreeNode_def)

lemma RTree_insert_index_of:
  "RTree_insert h (index_of h ps) p = index_of h (ps @ [p])"
  by (simp add: index_of_def inserts_def)

lemma query_index_of:
  "query h (index_of h ps) rng =
     (if intersects (mkRectangle 0 0 100 100) rng then matching h rng ps else [])"
  by (simp add: query_def root_index_of fold_push_filter matching_def)

text \<open>An internal node: \<open>updateBoundingBox\<close> starts from the current box, so the box
  only grows, and a range that met it still meets it.\<close>

lemma fold_widen_grows:
  "x_min (fold (\<lambda>c acc. widen acc (f c)) cs b) \<le> x_min b \<and>
   y_min (fold (\<lambda>c acc. widen acc (f c)) cs b) \<le> y_min b \<and>
   x_max b \<le> x_max (fold (\<lambda>c acc. widen acc (f c)) cs b) \<and>
   y_max b \<le> y_max (fold (\<lambda>c acc. widen acc (f c)) cs b)"
proof (induction cs arbitrary: b)
  case Nil
  then show ?case by simp
next
  case (Cons c cs)
  have "x_min (widen b (f c)) \<le> x_min b" "y_min (widen b (f c)) \<le> y_min b"
       "x_max b \<le> x_max (widen b (f c))" "y_max b \<le> y_max (widen b (f c))"
    by (simp_all add: widen_def mkRectangle_def)
  with Cons.IH [of "widen b (f c)"] show ?case
    by simp
qed

lemma intersects_grown:
  assumes "intersects b rng"
    and "x_min b' \<le> x_min b" "y_min b' \<le> y_min b" "x_max b \<le> x_max b'" "y_max b \<le> y_max b'"
  shows "intersects b' rng"
  using assms by (auto simp: intersects_def)

lemma mkRectangle_same:
  "mkRectangle (x_min b) (y_min b) (x_max b) (y_max b) = (b :: Rectangle)"
  by (simp add: mkRectangle_def)

lemma RTreeNode_insert_internal:
  "RTreeNode_insert h (RTreeNode cs props box False) p =
     RTreeNode (cs @ [RTreeNode [] [] (bbox (h p)) False]) props
       (fold (\<lambda>node acc. widen acc (bounding_box node))
          (cs @ [RTreeNode [] [] (bbox (h p)) False]) box) False"
  by (simp add: RTreeNode_insert_def updateBoundingBox_def new_RTreeNode_def
      mkRectangle_same Let_def del: fold_append)

lemma queryRecursive_prefix:
  "prefix (queryRecursive h n rng []) (queryRecursive h (RTreeNode_insert h n p) rng [])"
proof (cases n)
  case (RTreeNode cs props box leaf)
  show ?thesis
  proof (cases leaf)
    case True
    then show ?thesis
      unfolding RTreeNode
      by (simp add: RTreeNode_insert_leaf fold_push_filter)
  next
    case False
    let ?new = "RTreeNode [] [] (bbox (h p)) False"
    let ?box = "fold (\<lambda>node acc. widen acc (bounding_box node)) (cs @ [?new]) box"
    have ins: "RTreeNode_insert h n p = RTreeNode (cs @ [?new]) props ?box False"
      using False by (simp only: RTreeNode RTreeNode_insert_internal)
    have new: "queryRecursive h ?new rng res = res" for res
      by simp
    show ?thesis
    proof (cases "intersects box rng")
      case no: False
      then show ?thesis using False by (simp add: RTreeNode)
    next
      case yes: True
      have "intersects ?box rng"
        using fold_widen_grows [of bounding_box "cs @ [?new]" box] yes
        by (intro intersects_grown [of box rng ?box]) simp_all
      then have "queryRecursive h (RTreeNode_insert h n p) rng [] =
                 fold (\<lambda>child res. queryRecursive h child rng res) cs []"
        unfolding ins using new by (simp del: fold_append add: fold_append [unfolded comp_def])
      moreover have "queryRecursive h n rng [] =
                 fold (\<lambda>child res. queryRecursive h child rng res) cs []"
        using yes False by (simp add: RTreeNode)
      ultimately show ?thesis by simp
    qed
  qed
qed

text \<open>The loop of \<open>queryNearLocation\<close>.\<close>

lemma fold_keep_filter:
  "queryNearLocation A h t x y d mp ma mb =
     filter (\<lambda>p. real_of_int (double_to_int A (computed_centroid_distance A x y (bbox (h p)))) \<le> d \<and>
                  price (h p) \<le> mp \<and> ma \<le> area (h p) \<and> mb \<le> bedrooms (h p))
       (query h t (search_square A x y d))"
  by (simp add: queryNearLocation_def calculateDistance_def computed_centroid_distance_def
      computed_distance_def search_square_def Let_def fold_push_filter)

lemma calculateDistance_computed:
  "calculateDistance A x1 y1 x2 y2 =
     real_of_int (double_to_int A (computed_distance A x1 y1 x2 y2))"
  by (simp add: calculateDistance_def computed_distance_def)


lemma double_to_int_in_range:
  "INT_MIN \<le> trunc r \<Longrightarrow> trunc r \<le> INT_MAX \<Longrightarrow> double_to_int A r = trunc r"
  by (simp add: double_to_int_def)

lemma double_to_int_is_int:
  "INT_MIN \<le> double_to_int A r \<and> double_to_int A r \<le> INT_MAX"
proof -
  have "- (2 ^ (LENGTH(32) - 1)) \<le> sint (out_of_range A r)"
    by (rule sint_ge)
  moreover have "sint (out_of_range A r) < 2 ^ (LENGTH(32) - 1)"
    by (rule sint_lt)
  ultimately show ?thesis
    by (simp add: double_to_int_def INT_MIN_def INT_MAX_def)
qed

text \<open>Whatever the platform, \<open>calculateDistance\<close> returns an \<open>int\<close>: a distance of
  \<open>2^31\<close> or more is never what is compared with the radius.\<close>

lemma calculateDistance_is_int:
  "real_of_int INT_MIN \<le> calculateDistance A x1 y1 x2 y2 \<and>
   calculateDistance A x1 y1 x2 y2 \<le> real_of_int INT_MAX"
  using double_to_int_is_int [of A "computed_distance A x1 y1 x2 y2"]
  by (simp add: calculateDistance_computed)

lemma far_distance_not_truncated:
  assumes "INT_MAX < trunc (euclidean_distance x1 y1 x2 y2)"
  shows "calculateDistance A x1 y1 x2 y2 \<noteq> real_of_int (trunc (euclidean_distance x1 y1 x2 y2))"
  using assms calculateDistance_is_int [of A x1 y1 x2 y2] by auto

lemma trunc_near_4_9:
  assumes "\<bar>r - 4.9\<bar> < 1 / 10"
  shows "trunc r = 4"
proof -
  have "4 \<le> r" "r < 5" using assms by linarith+
  then have "\<lfloor>r\<rfloor> = 4" by (intro floor_unique) simp_all
  with \<open>4 \<le> r\<close> show ?thesis by (simp add: trunc_def)
qed


text \<open>A platform without rounding error computes the exact values.\<close>

lemma exact_computed_distance:
  "computed_distance (exact_platform f) x1 y1 x2 y2 = euclidean_distance x1 y1 x2 y2"
  by (simp add: computed_distance_def exact_platform_def euclidean_distance_def)

lemma exact_computed_centroid_distance:
  "computed_centroid_distance (exact_platform f) x y b = centroid_distance x y b"
  by (simp add: computed_centroid_distance_def computed_distance_def exact_platform_def
      centroid_distance_def centroid_def)

lemma exact_search_square:
  "search_square (exact_platform f) x y r = mkRectangle (x - r) (y - r) (x + r) (y + r)"
  by (simp add: search_square_def exact_platform_def)

lemma exact_square_exact: "square_exact (exact_platform f) x y r"
  by (simp add: square_exact_def exact_search_square)

text \<open>The distances of the examples.\<close>

lemma centroid_distance_eqI:
  assumes "0 \<le> d"
    and "((x_min b + x_max b) / 2 - x)\<^sup>2 + ((y_min b + y_max b) / 2 - y)\<^sup>2 = d\<^sup>2"
  shows "centroid_distance x y b = d"
  using assms by (simp add: centroid_distance_def centroid_def)

lemma centroid_distance_4_9:
  "centroid_distance 0 0 (mkRectangle 3 (-1) 6.8 1) = 4.9"
  by (rule centroid_distance_eqI) (simp_all add: mkRectangle_def power2_eq_square)

lemma centroid_distance_5_9:
  "centroid_distance 0 0 (mkRectangle 4 (-1) 7.8 1) = 5.9"
  by (rule centroid_distance_eqI) (simp_all add: mkRectangle_def power2_eq_square)

lemma centroid_distance_5_5:
  "centroid_distance 0 0 (mkRectangle 4 (-1) 7 1) = 5.5"
  by (rule centroid_distance_eqI) (simp_all add: mkRectangle_def power2_eq_square)




lemma euclidean_distance_far:
  "euclidean_distance 0 0 5000000000 0 = 5000000000"
  by (simp add: euclidean_distance_def)

text \<open>The conversion of 5000000000 on the platform that delivers \<open>INT_MIN\<close>.\<close>

lemma x86_convert_far:
  "double_to_int x86_exact 5000000000 = - 2147483648"
  by (simp add: double_to_int_def trunc_def INT_MAX_def INT_MIN_def x86_exact_def
      exact_platform_def)

text \<open>The search of radius 5 around the origin on a platform that computes the square
  and the distance of the listing \<open>(4,-1,7,1)\<close> as IEEE 754 does, without error: all
  the values are doubles.\<close>

lemma queryNear_5_5:
  assumes "square_exact A 0 0 5"
    and "computed_centroid_distance A 0 0 (mkRectangle 4 (-1) 7 1) = 5.5"
  shows "queryNearLocation A (store_of (listing 4 (-1) 7 1))
           (index_of (store_of (listing 4 (-1) 7 1)) [0]) 0 0 5 200000 0 0 = [0]"
proof -
  have sq: "search_square A 0 0 5 = mkRectangle (- 5) (- 5) 5 5"
    using assms(1) by (simp add: square_exact_def)
  have "trunc (5.5::real) = 5" by (simp add: trunc_def)
  then have "double_to_int A (computed_centroid_distance A 0 0 (mkRectangle 4 (-1) 7 1)) = 5"
    unfolding assms(2) by (simp add: double_to_int_def INT_MIN_def INT_MAX_def)
  then show ?thesis
    unfolding fold_keep_filter sq
    by (simp add: query_index_of matching_def store_of_def listing_def intersects_def)
      (simp add: mkRectangle_def)
qed

lemma queryNear_5_9:
  "queryNearLocation (exact_platform f) (store_of (listing 4 (-1) 7.8 1))
     (index_of (store_of (listing 4 (-1) 7.8 1)) [0]) 0 0 5 200000 0 0 = [0]"
proof -
  have "trunc (5.9::real) = 5" by (simp add: trunc_def)
  then have "double_to_int (exact_platform f)
               (computed_centroid_distance (exact_platform f) 0 0 (mkRectangle 4 (-1) 7.8 1)) = 5"
    unfolding exact_computed_centroid_distance centroid_distance_5_9
    by (simp add: double_to_int_def INT_MIN_def INT_MAX_def)
  then show ?thesis
    unfolding fold_keep_filter exact_search_square
    by (simp add: query_index_of matching_def store_of_def listing_def intersects_def)
      (simp add: mkRectangle_def)
qed

text \<open>Two calls on the platform that rounds. The first: the point \<open>(3, 4 - 2^-51)\<close>
  is less than 5 away from the origin, and the distance computed is 5.\<close>

lemma rounded_distance_computed:
  "computed_distance ieee_sample 0 0 3 (4 - 1 / 2 ^ 51) = 5"
  by (simp add: computed_distance_def ieee_sample_def)

lemma rounded_distance_exact:
  "trunc (euclidean_distance 0 0 3 (4 - 1 / 2 ^ 51)) = 4"
proof -
  let ?d = "euclidean_distance 0 0 3 (4 - 1 / 2 ^ 51)"
  have "4 \<le> ?d"
    unfolding euclidean_distance_def by (rule real_le_rsqrt) (simp add: power2_eq_square)
  moreover have "?d < 5"
    unfolding euclidean_distance_def by (rule real_less_lsqrt) (simp_all add: power2_eq_square)
  ultimately have "\<lfloor>?d\<rfloor> = 4" by (intro floor_unique) simp_all
  with \<open>4 \<le> ?d\<close> show ?thesis by (simp add: trunc_def)
qed




text \<open>A range that covers the initial extent and every bounding box of a sequence.\<close>

lemma covering_range_fold:
  "x_min (fold (\<lambda>p acc. widen (widen acc (bbox (h p)))
                 (mkRectangle (x_max (bbox (h p))) (y_max (bbox (h p)))
                              (x_min (bbox (h p))) (y_min (bbox (h p))))) ps b) \<le> x_min b \<and>
   y_min (fold (\<lambda>p acc. widen (widen acc (bbox (h p)))
                 (mkRectangle (x_max (bbox (h p))) (y_max (bbox (h p)))
                              (x_min (bbox (h p))) (y_min (bbox (h p))))) ps b) \<le> y_min b \<and>
   x_max b \<le> x_max (fold (\<lambda>p acc. widen (widen acc (bbox (h p)))
                 (mkRectangle (x_max (bbox (h p))) (y_max (bbox (h p)))
                              (x_min (bbox (h p))) (y_min (bbox (h p))))) ps b) \<and>
   y_max b \<le> y_max (fold (\<lambda>p acc. widen (widen acc (bbox (h p)))
                 (mkRectangle (x_max (bbox (h p))) (y_max (bbox (h p)))
                              (x_min (bbox (h p))) (y_min (bbox (h p))))) ps b) \<and>
   (\<forall>q \<in> set ps. intersects (fold (\<lambda>p acc. widen (widen acc (bbox (h p)))
                 (mkRectangle (x_max (bbox (h p))) (y_max (bbox (h p)))
                              (x_min (bbox (h p))) (y_min (bbox (h p))))) ps b) (bbox (h q)))"
  (is "?P ps b")
proof (induction ps arbitrary: b)
  case Nil
  then show ?case by simp
next
  case (Cons p ps)
  let ?b = "widen (widen b (bbox (h p)))
              (mkRectangle (x_max (bbox (h p))) (y_max (bbox (h p)))
                           (x_min (bbox (h p))) (y_min (bbox (h p))))"
  have b: "x_min ?b \<le> x_min b" "y_min ?b \<le> y_min b" "x_max b \<le> x_max ?b" "y_max b \<le> y_max ?b"
    by (simp_all add: widen_def mkRectangle_def)
  have p: "x_min ?b \<le> x_max (bbox (h p))" "x_min (bbox (h p)) \<le> x_max ?b"
          "y_min ?b \<le> y_max (bbox (h p))" "y_min (bbox (h p)) \<le> y_max ?b"
    by (simp_all add: widen_def mkRectangle_def)
  have IH: "?P ps ?b" by (rule Cons.IH)
  have "intersects (fold (\<lambda>p acc. widen (widen acc (bbox (h p)))
                 (mkRectangle (x_max (bbox (h p))) (y_max (bbox (h p)))
                              (x_min (bbox (h p))) (y_min (bbox (h p))))) ps ?b) (bbox (h p))"
    using IH p unfolding intersects_def by linarith
  with IH b show ?case by simp
qed

lemma covering_range_covers:
  "x_min (covering_range h ps) \<le> 0 \<and> y_min (covering_range h ps) \<le> 0 \<and>
   100 \<le> x_max (covering_range h ps) \<and> 100 \<le> y_max (covering_range h ps)"
  using covering_range_fold [of h ps "mkRectangle 0 0 100 100"]
  by (simp add: covering_range_def mkRectangle_def)

lemma covering_range_matches_all:
  "matching h (covering_range h ps) ps = ps"
  using covering_range_fold [of h ps "mkRectangle 0 0 100 100"]
  by (simp add: covering_range_def matching_def)

lemma covering_range_meets_root:
  "intersects (mkRectangle 0 0 100 100) (covering_range h ps)"
  using covering_range_covers [of h ps] by (simp add: intersects_def mkRectangle_def)

section \<open>The claims\<close>

text \<open>
  Claim C1 (insert/query roundtrip). After a listing whose bounding box is
  \<open>(10,10,20,20)\<close> is inserted into a fresh index, the query with the range
  \<open>(5,5,25,25)\<close> returns a sequence that contains the listing (it is the sequence of
  that listing alone), and the query with the disjoint range \<open>(30,30,40,40)\<close> returns
  a sequence that does not contain it (the empty one).
\<close>

theorem insert_query_roundtrip:
  assumes "bbox (h p) = mkRectangle 10 10 20 20"
  shows "p \<in> set (query h (RTree_insert h RTree_new p) (mkRectangle 5 5 25 25)) \<and>
         query h (RTree_insert h RTree_new p) (mkRectangle 5 5 25 25) = [p] \<and>
         p \<notin> set (query h (RTree_insert h RTree_new p) (mkRectangle 30 30 40 40)) \<and>
         query h (RTree_insert h RTree_new p) (mkRectangle 30 30 40 40) = []"
  using assms
  by (simp add: query_def RTree_insert_def RTree_new_def new_RTreeNode_def
      RTreeNode_insert_leaf intersects_def mkRectangle_def)

theorem insert_query_roundtrip_witness:
  "bbox (store_of (listing 10 10 20 20) 7) = mkRectangle 10 10 20 20 \<and>
   query (store_of (listing 10 10 20 20))
     (RTree_insert (store_of (listing 10 10 20 20)) RTree_new 7) (mkRectangle 5 5 25 25) = [7] \<and>
   query (store_of (listing 10 10 20 20))
     (RTree_insert (store_of (listing 10 10 20 20)) RTree_new 7) (mkRectangle 30 30 40 40) = []"
proof -
  have b: "bbox (store_of (listing 10 10 20 20) 7) = mkRectangle 10 10 20 20"
    by (simp add: store_of_def listing_def)
  show ?thesis
    using insert_query_roundtrip [of "store_of (listing 10 10 20 20)" 7] b by simp
qed




text \<open>
  Claim C3 (closed-interval intersection). For all rectangles \<open>a\<close> and \<open>b\<close>,
  \<open>intersects(a, b)\<close> holds exactly when none of \<open>a.x_min > b.x_max\<close>,
  \<open>a.x_max < b.x_min\<close>, \<open>a.y_min > b.y_max\<close>, \<open>a.y_max < b.y_min\<close> holds, that is when
  the closed intervals overlap on both axes; rectangles that touch at a corner
  intersect: \<open>intersects((0,0,1,1), (1,1,2,2))\<close> is true.
\<close>

theorem intersects_closed_intervals:
  "(intersects a b \<longleftrightarrow>
      \<not> (x_min a > x_max b \<or> x_max a < x_min b \<or> y_min a > y_max b \<or> y_max a < y_min b)) \<and>
   (intersects a b \<longleftrightarrow>
      x_min a \<le> x_max b \<and> x_min b \<le> x_max a \<and> y_min a \<le> y_max b \<and> y_min b \<le> y_max a) \<and>
   intersects (mkRectangle 0 0 1 1) (mkRectangle 1 1 2 2)"
  by (auto simp: intersects_def mkRectangle_def)

text \<open>Two rectangles that share an edge intersect; separated ones do not.\<close>

theorem intersects_closed_intervals_witness:
  "intersects (mkRectangle 0 0 1 1) (mkRectangle 1 0 2 1) \<and>
   \<not> intersects (mkRectangle 0 0 1 1) (mkRectangle 2 0 3 1)"
  using intersects_closed_intervals [of "mkRectangle 0 0 1 1" "mkRectangle 1 0 2 1"]
    intersects_closed_intervals [of "mkRectangle 0 0 1 1" "mkRectangle 2 0 3 1"]
  by (simp add: mkRectangle_def)

text \<open>
  Claim C4 (an out-of-extent listing is unreachable). After a listing with bounding box
  \<open>(150,150,160,160)\<close> is inserted into a fresh index, the query with the range
  \<open>(140,140,170,170)\<close> returns the empty sequence although the range meets the
  listing's box and the listing is stored: the root's bounding box is still
  \<open>(0,0)-(100,100)\<close>, after any sequence of inserts, and a query whose range does not
  meet that box returns at once with nothing.
\<close>

theorem out_of_extent_unreachable:
  assumes "bbox (h p) = mkRectangle 150 150 160 160"
  shows "bounding_box (root (RTree_insert h RTree_new p)) = mkRectangle 0 0 100 100 \<and>
         \<not> intersects (bounding_box (root (RTree_insert h RTree_new p)))
              (mkRectangle 140 140 170 170) \<and>
         intersects (mkRectangle 140 140 170 170) (bbox (h p)) \<and>
         leaf_properties (root (RTree_insert h RTree_new p)) = [p] \<and>
         query h (RTree_insert h RTree_new p) (mkRectangle 140 140 170 170) = [] \<and>
         bounding_box (root (index_of h ps)) = mkRectangle 0 0 100 100 \<and>
         (\<not> intersects (mkRectangle 0 0 100 100) rng \<longrightarrow> query h (index_of h ps) rng = [])"
proof -
  have "query h (RTree_insert h RTree_new p) (mkRectangle 140 140 170 170) = []"
    by (simp add: query_def RTree_insert_def RTree_new_def new_RTreeNode_def
        RTreeNode_insert_leaf intersects_def mkRectangle_def)
  moreover have "intersects (mkRectangle 140 140 170 170) (bbox (h p))"
    using assms by (simp add: intersects_def mkRectangle_def)
  moreover have "\<not> intersects (bounding_box (root (RTree_insert h RTree_new p)))
              (mkRectangle 140 140 170 170)"
    by (simp add: RTree_insert_def RTree_new_def new_RTreeNode_def
        RTreeNode_insert_leaf intersects_def mkRectangle_def)
  moreover have "bounding_box (root (RTree_insert h RTree_new p)) = mkRectangle 0 0 100 100"
                "leaf_properties (root (RTree_insert h RTree_new p)) = [p]"
    by (simp_all add: RTree_insert_def RTree_new_def new_RTreeNode_def RTreeNode_insert_leaf)
  moreover have "bounding_box (root (index_of h ps)) = mkRectangle 0 0 100 100"
    by (simp add: root_index_of)
  moreover have "\<not> intersects (mkRectangle 0 0 100 100) rng \<longrightarrow> query h (index_of h ps) rng = []"
    by (simp add: query_index_of)
  ultimately show ?thesis by blast
qed

theorem out_of_extent_unreachable_witness:
  "bbox (store_of (listing 150 150 160 160) 1) = mkRectangle 150 150 160 160 \<and>
   \<not> intersects (mkRectangle 0 0 100 100) (mkRectangle 140 140 170 170) \<and>
   query (store_of (listing 150 150 160 160))
     (RTree_insert (store_of (listing 150 150 160 160)) RTree_new 1)
     (mkRectangle 140 140 170 170) = [] \<and>
   query (store_of (listing 150 150 160 160))
     (index_of (store_of (listing 150 150 160 160)) [1, 2])
     (mkRectangle 140 140 170 170) = []"
proof -
  have b: "bbox (store_of (listing 150 150 160 160) 1) = mkRectangle 150 150 160 160"
    by (simp add: store_of_def listing_def)
  have n: "\<not> intersects (mkRectangle 0 0 100 100) (mkRectangle 140 140 170 170)"
    by (simp add: intersects_def mkRectangle_def)
  show ?thesis
    using out_of_extent_unreachable
      [of "store_of (listing 150 150 160 160)" 1 "[1, 2]" "mkRectangle 140 140 170 170"] b n
    by blast
qed

text \<open>
  Claim C5 (order and uniqueness of the matches), as amended. For every sequence of
  inserted listings and every query rectangle that meets the fixed root box
  \<open>(0,0)-(100,100)\<close>, the result of \<open>query\<close> is the sequence of the inserted listings
  whose bounding box meets the rectangle, in insertion order; for a rectangle that does
  not meet the root box the result is empty. When the inserted listings are distinct
  objects, each appears at most once in the result. Inserting \<open>L1\<close>, \<open>L2\<close>, \<open>L3\<close> and
  querying a range that meets the root box and all three boxes returns
  \<open>[L1, L2, L3]\<close>.
\<close>

theorem query_matching_in_order:
  "query h (index_of h ps) rng =
     (if intersects (mkRectangle 0 0 100 100) rng then matching h rng ps else []) \<and>
   (distinct ps \<longrightarrow> distinct (query h (index_of h ps) rng)) \<and>
   (intersects (mkRectangle 0 0 100 100) rng \<and> intersects rng (bbox (h l1)) \<and>
    intersects rng (bbox (h l2)) \<and> intersects rng (bbox (h l3)) \<longrightarrow>
      query h (index_of h [l1, l2, l3]) rng = [l1, l2, l3])"
  by (simp add: query_index_of matching_def)

theorem query_matching_in_order_witness:
  "distinct [1, 2, 3 :: nat] \<and>
   intersects (mkRectangle 0 0 100 100) (mkRectangle 5 5 70 70) \<and>
   intersects (mkRectangle 5 5 70 70) (bbox (store3 1)) \<and>
   intersects (mkRectangle 5 5 70 70) (bbox (store3 2)) \<and>
   intersects (mkRectangle 5 5 70 70) (bbox (store3 3)) \<and>
   query store3 (index_of store3 [1, 2, 3]) (mkRectangle 5 5 70 70) = [1, 2, 3] \<and>
   distinct (query store3 (index_of store3 [1, 2, 3]) (mkRectangle 5 5 70 70)) \<and>
   query store3 (index_of store3 [1, 2, 3]) (mkRectangle 25 25 45 45) = [2]"
proof -
  have i: "intersects (mkRectangle 0 0 100 100) (mkRectangle 5 5 70 70)"
          "intersects (mkRectangle 5 5 70 70) (bbox (store3 1))"
          "intersects (mkRectangle 5 5 70 70) (bbox (store3 2))"
          "intersects (mkRectangle 5 5 70 70) (bbox (store3 3))"
    by (simp_all add: intersects_def mkRectangle_def store3_def listing_def)
  have m: "matching store3 (mkRectangle 25 25 45 45) [1, 2, 3] = [2]"
          "intersects (mkRectangle 0 0 100 100) (mkRectangle 25 25 45 45)"
    by (simp_all add: matching_def intersects_def mkRectangle_def store3_def listing_def)
  have q: "query store3 (index_of store3 [1, 2, 3]) (mkRectangle 5 5 70 70) = [1, 2, 3]"
    using query_matching_in_order [of store3 "[1, 2, 3]" "mkRectangle 5 5 70 70" 1 2 3] i
    by blast
  have d: "distinct (query store3 (index_of store3 [1, 2, 3]) (mkRectangle 5 5 70 70))"
    unfolding q by simp
  have r: "query store3 (index_of store3 [1, 2, 3]) (mkRectangle 25 25 45 45) = [2]"
    using query_matching_in_order [of store3 "[1, 2, 3]" "mkRectangle 25 25 45 45" 1 2 3] m
    by simp
  have "distinct [1, 2, 3 :: nat]" by simp
  with i q d r show ?thesis by blast
qed

text \<open>
  The claim as it was stated, for every sequence and every rectangle, fails twice. A
  listing at \<open>(200,200,210,210)\<close> matches the range \<open>(150,150,250,250)\<close> and the query
  returns nothing; and a listing inserted twice is returned twice.
\<close>

theorem query_matching_counterexample:
  "matching (store_of (listing 200 200 210 210)) (mkRectangle 150 150 250 250) [0] = [0] \<and>
   query (store_of (listing 200 200 210 210)) (index_of (store_of (listing 200 200 210 210)) [0])
     (mkRectangle 150 150 250 250) = [] \<and>
   query (store_of (listing 200 200 210 210)) (index_of (store_of (listing 200 200 210 210)) [0])
     (mkRectangle 150 150 250 250) \<noteq>
   matching (store_of (listing 200 200 210 210)) (mkRectangle 150 150 250 250) [0] \<and>
   query (store_of (listing 10 10 20 20)) (index_of (store_of (listing 10 10 20 20)) [0, 0])
     (mkRectangle 5 5 25 25) = [0, 0] \<and>
   \<not> distinct (query (store_of (listing 10 10 20 20))
                 (index_of (store_of (listing 10 10 20 20)) [0, 0]) (mkRectangle 5 5 25 25))"
  by (simp add: query_index_of matching_def store_of_def listing_def intersects_def
      mkRectangle_def)

text \<open>
  Claim C6 (insert only appends). In every index reached from \<open>RTree()\<close> by inserts,
  a further insert appends the pointer to the root's \<open>leaf_properties\<close> and changes
  nothing else: the root is still a leaf without children, its bounding box is still
  \<open>(0,0)-(100,100)\<close>, and the pointers inserted before are still there, in their
  order (the objects themselves are not written: no function of the index returns a
  store). After the inserts of a sequence of N listings the root holds exactly these N,
  and the query with a range that covers the initial extent and all their boxes
  returns all of them.
\<close>

theorem insert_append_only:
  "root (index_of h ps) = RTreeNode [] ps (mkRectangle 0 0 100 100) True \<and>
   root (RTree_insert h (index_of h ps) p) =
     RTreeNode [] (ps @ [p]) (mkRectangle 0 0 100 100) True \<and>
   is_leaf (root (RTree_insert h (index_of h ps) p)) \<and>
   bounding_box (root (RTree_insert h (index_of h ps) p)) = bounding_box (root (index_of h ps)) \<and>
   leaf_properties (root (RTree_insert h (index_of h ps) p)) =
     leaf_properties (root (index_of h ps)) @ [p] \<and>
   length (leaf_properties (root (index_of h ps))) = length ps \<and>
   x_min (covering_range h ps) \<le> 0 \<and> y_min (covering_range h ps) \<le> 0 \<and>
   100 \<le> x_max (covering_range h ps) \<and> 100 \<le> y_max (covering_range h ps) \<and>
   query h (index_of h ps) (covering_range h ps) = ps"
  using covering_range_covers [of h ps]
  by (simp add: RTree_insert_index_of root_index_of query_index_of
      covering_range_matches_all covering_range_meets_root)

theorem insert_append_only_witness:
  "root (RTree_insert store3 (index_of store3 [1, 2]) 3) =
     RTreeNode [] [1, 2, 3] (mkRectangle 0 0 100 100) True \<and>
   query store3 (index_of store3 [1, 2, 3]) (covering_range store3 [1, 2, 3]) = [1, 2, 3]"
  using insert_append_only [of store3 "[1, 2]" 3] insert_append_only [of store3 "[1, 2, 3]" 3]
  by simp

text \<open>
  Claim C7 (the distance is truncated before the comparison), as amended.
  \<open>calculateDistance\<close> returns the double it computes for the Euclidean distance with
  its fractional part discarded (truncation toward zero, not rounding), as long as that
  integer is representable in \<open>int\<close>. When the exact distance is 4.9 and the platform
  computes it to within 0.1, the value returned is 4; a listing whose centroid is at
  that distance from the query point is compared as 4: it is returned exactly when it
  is a candidate, \<open>4 \<le> radius\<close> and the three attribute tests pass.
\<close>

theorem distance_truncated_before_comparison:
  "(INT_MIN \<le> trunc (computed_distance A x1 y1 x2 y2) \<and>
    trunc (computed_distance A x1 y1 x2 y2) \<le> INT_MAX \<longrightarrow>
      calculateDistance A x1 y1 x2 y2 = real_of_int (trunc (computed_distance A x1 y1 x2 y2))) \<and>
   (euclidean_distance x1 y1 x2 y2 = 4.9 \<and>
    \<bar>computed_distance A x1 y1 x2 y2 - euclidean_distance x1 y1 x2 y2\<bar> < 1 / 10 \<longrightarrow>
      calculateDistance A x1 y1 x2 y2 = 4) \<and>
   (centroid_distance x y (bbox (h p)) = 4.9 \<and>
    \<bar>computed_centroid_distance A x y (bbox (h p)) - centroid_distance x y (bbox (h p))\<bar> < 1 / 10 \<longrightarrow>
      (p \<in> set (queryNearLocation A h t x y radius max_price min_area min_bedrooms) \<longleftrightarrow>
         p \<in> set (query h t (search_square A x y radius)) \<and>
         4 \<le> radius \<and> price (h p) \<le> max_price \<and> area (h p) \<ge> min_area \<and>
         bedrooms (h p) \<ge> min_bedrooms))"
proof (intro conjI impI)
  assume "INT_MIN \<le> trunc (computed_distance A x1 y1 x2 y2) \<and>
          trunc (computed_distance A x1 y1 x2 y2) \<le> INT_MAX"
  then show "calculateDistance A x1 y1 x2 y2 =
             real_of_int (trunc (computed_distance A x1 y1 x2 y2))"
    by (simp add: calculateDistance_computed double_to_int_in_range)
next
  assume a: "euclidean_distance x1 y1 x2 y2 = 4.9 \<and>
    \<bar>computed_distance A x1 y1 x2 y2 - euclidean_distance x1 y1 x2 y2\<bar> < 1 / 10"
  then have e: "euclidean_distance x1 y1 x2 y2 = 4.9"
    and c: "\<bar>computed_distance A x1 y1 x2 y2 - euclidean_distance x1 y1 x2 y2\<bar> < 1 / 10"
    by blast+
  have "\<bar>computed_distance A x1 y1 x2 y2 - 4.9\<bar> < 1 / 10"
    using c unfolding e .
  then have "trunc (computed_distance A x1 y1 x2 y2) = 4" by (rule trunc_near_4_9)
  then show "calculateDistance A x1 y1 x2 y2 = 4"
    by (simp add: calculateDistance_computed double_to_int_def INT_MIN_def INT_MAX_def)
next
  assume a: "centroid_distance x y (bbox (h p)) = 4.9 \<and>
    \<bar>computed_centroid_distance A x y (bbox (h p)) - centroid_distance x y (bbox (h p))\<bar> < 1 / 10"
  then have e: "centroid_distance x y (bbox (h p)) = 4.9"
    and c: "\<bar>computed_centroid_distance A x y (bbox (h p)) - centroid_distance x y (bbox (h p))\<bar> < 1 / 10"
    by blast+
  have "\<bar>computed_centroid_distance A x y (bbox (h p)) - 4.9\<bar> < 1 / 10"
    using c unfolding e .
  then have "trunc (computed_centroid_distance A x y (bbox (h p))) = 4" by (rule trunc_near_4_9)
  then have "double_to_int A (computed_centroid_distance A x y (bbox (h p))) = 4"
    by (simp add: double_to_int_def INT_MIN_def INT_MAX_def)
  then show "p \<in> set (queryNearLocation A h t x y radius max_price min_area min_bedrooms) \<longleftrightarrow>
         p \<in> set (query h t (search_square A x y radius)) \<and>
         4 \<le> radius \<and> price (h p) \<le> max_price \<and> area (h p) \<ge> min_area \<and>
         bedrooms (h p) \<ge> min_bedrooms"
    by (auto simp: fold_keep_filter)
qed

text \<open>A listing with centroid \<open>(4.9, 0)\<close> passes the search of radius 4 around the
  origin.\<close>

theorem distance_truncated_witness:
  "centroid_distance 0 0 (bbox (store_of (listing 3 (-1) 6.8 1) 0)) = 4.9 \<and>
   computed_centroid_distance x86_exact 0 0 (bbox (store_of (listing 3 (-1) 6.8 1) 0)) = 4.9 \<and>
   0 \<in> set (queryNearLocation x86_exact (store_of (listing 3 (-1) 6.8 1))
              (index_of (store_of (listing 3 (-1) 6.8 1)) [0]) 0 0 4 200000 0 0) \<and>
   euclidean_distance 0 0 4.9 0 = 4.9 \<and>
   calculateDistance x86_exact 0 0 4.9 0 = 4 \<and>
   calculateDistance x86_exact 0 0 4.9 0 = real_of_int (trunc (computed_distance x86_exact 0 0 4.9 0))"
proof -
  let ?h = "store_of (listing 3 (-1) 6.8 1)"
  note T = distance_truncated_before_comparison
      [where ?x1.0 = 0 and ?y1.0 = 0 and ?x2.0 = "4.9" and ?y2.0 = 0 and A = x86_exact
        and x = 0 and y = 0 and h = ?h and p = 0 and t = "index_of ?h [0]" and radius = 4
        and max_price = 200000 and min_area = 0 and min_bedrooms = 0]
  have d: "centroid_distance 0 0 (bbox (?h 0)) = 4.9"
    using centroid_distance_4_9 by (simp add: store_of_def listing_def)
  have c: "computed_centroid_distance x86_exact 0 0 (bbox (?h 0)) = 4.9"
    unfolding x86_exact_def exact_computed_centroid_distance by (rule d)
  have e: "euclidean_distance 0 0 4.9 0 = 4.9"
    by (simp add: euclidean_distance_def)
  have ce: "computed_distance x86_exact 0 0 4.9 0 = 4.9"
    unfolding x86_exact_def exact_computed_distance by (rule e)
  have t: "trunc (4.9::real) = 4" by (simp add: trunc_def)
  have q: "0 \<in> set (query ?h (index_of ?h [0]) (search_square x86_exact 0 0 4))"
    unfolding x86_exact_def exact_search_square
    by (simp add: query_index_of matching_def store_of_def listing_def intersects_def
        mkRectangle_def)
  have a: "price (?h 0) \<le> 200000" "area (?h 0) \<ge> 0" "bedrooms (?h 0) \<ge> 0"
    by (simp_all add: store_of_def listing_def)
  have k: "0 \<in> set (queryNearLocation x86_exact ?h (index_of ?h [0]) 0 0 4 200000 0 0)"
    using T [THEN conjunct2, THEN conjunct2] d c q a by simp
  have v: "calculateDistance x86_exact 0 0 4.9 0 = 4"
    using T [THEN conjunct2, THEN conjunct1] e ce by simp
  have w: "calculateDistance x86_exact 0 0 4.9 0 =
           real_of_int (trunc (computed_distance x86_exact 0 0 4.9 0))"
    using T [THEN conjunct1] unfolding ce t by (simp add: INT_MIN_def INT_MAX_def)
  from d c k e v w show ?thesis by blast
qed

text \<open>
  The claim as it was stated, for every distance, fails in two ways. Where the truncated
  distance does not fit an \<open>int\<close>: the distance from \<open>(0,0)\<close> to \<open>(5000000000,0)\<close> is
  computed without error (all the values are doubles) and is 5000000000, an integer;
  the conversion delivers \<open>INT_MIN\<close>, and that is the value compared with the radius.
  And where rounding carries the computed distance over an integer: the point
  \<open>(3, 4 - 2^-51)\<close> is less than 5 away from the origin, its distance truncates to 4,
  and the double computed is 5.
\<close>

theorem distance_truncated_counterexample:
  "euclidean_distance 0 0 5000000000 0 = 5000000000 \<and>
   computed_distance x86_exact 0 0 5000000000 0 = 5000000000 \<and>
   calculateDistance x86_exact 0 0 5000000000 0 = - 2147483648 \<and>
   calculateDistance x86_exact 0 0 5000000000 0 \<noteq>
     real_of_int (trunc (euclidean_distance 0 0 5000000000 0)) \<and>
   real_of_int (trunc (euclidean_distance 0 0 3 (4 - 1 / 2 ^ 51))) = 4 \<and>
   computed_distance ieee_sample 0 0 3 (4 - 1 / 2 ^ 51) = 5 \<and>
   calculateDistance ieee_sample 0 0 3 (4 - 1 / 2 ^ 51) = 5 \<and>
   calculateDistance ieee_sample 0 0 3 (4 - 1 / 2 ^ 51) \<noteq>
     real_of_int (trunc (euclidean_distance 0 0 3 (4 - 1 / 2 ^ 51)))"
proof -
  have c: "computed_distance x86_exact 0 0 5000000000 0 = 5000000000"
    unfolding x86_exact_def exact_computed_distance by (rule euclidean_distance_far)
  have v: "calculateDistance x86_exact 0 0 5000000000 0 = - 2147483648"
    unfolding calculateDistance_computed c x86_convert_far by simp
  have t: "real_of_int (trunc (euclidean_distance 0 0 5000000000 0)) = 5000000000"
    unfolding euclidean_distance_far by (simp add: trunc_def)
  have n: "calculateDistance x86_exact 0 0 5000000000 0 \<noteq>
     real_of_int (trunc (euclidean_distance 0 0 5000000000 0))"
    unfolding v t by simp
  have r: "real_of_int (trunc (euclidean_distance 0 0 3 (4 - 1 / 2 ^ 51))) = 4"
    unfolding rounded_distance_exact by simp
  have "trunc (5::real) = 5" by (simp add: trunc_def)
  then have w: "calculateDistance ieee_sample 0 0 3 (4 - 1 / 2 ^ 51) = 5"
    unfolding calculateDistance_computed rounded_distance_computed
    by (simp add: double_to_int_def INT_MIN_def INT_MAX_def)
  have m: "calculateDistance ieee_sample 0 0 3 (4 - 1 / 2 ^ 51) \<noteq>
     real_of_int (trunc (euclidean_distance 0 0 3 (4 - 1 / 2 ^ 51)))"
    unfolding w r by simp
  from euclidean_distance_far c v n r rounded_distance_computed w m show ?thesis by blast
qed

text \<open>
  Claim C8 (symmetry). For all rectangles \<open>a\<close> and \<open>b\<close>, well-formed or not,
  \<open>intersects(a, b) = intersects(b, a)\<close>.
\<close>

theorem intersects_symmetric:
  "intersects a b = intersects b a"
  by (auto simp: intersects_def)

theorem intersects_symmetric_witness:
  "intersects (mkRectangle 5 5 1 1) (mkRectangle 0 0 9 9) =
   intersects (mkRectangle 0 0 9 9) (mkRectangle 5 5 1 1)"
  using intersects_symmetric [of "mkRectangle 5 5 1 1" "mkRectangle 0 0 9 9"] by simp

text \<open>
  Claim C9 (a query result only grows at its end). For every index, every pointer and
  every query rectangle, the result of the query before \<open>insert\<close> is a prefix of the
  result of the same query after it. When the root is a leaf, as in every index reached
  through the public operations, the result after the insert is the result before it,
  followed by the new listing if the rectangle meets the root box and the listing's box.
\<close>

theorem query_prefix_after_insert:
  "prefix (query h t rng) (query h (RTree_insert h t p) rng) \<and>
   (is_leaf (root t) \<longrightarrow>
      query h (RTree_insert h t p) rng =
        query h t rng @
          (if intersects (bounding_box (root t)) rng \<and> intersects rng (bbox (h p))
           then [p] else []))"
proof
  show "prefix (query h t rng) (query h (RTree_insert h t p) rng)"
    by (simp add: query_def RTree_insert_def queryRecursive_prefix)
  show "is_leaf (root t) \<longrightarrow>
      query h (RTree_insert h t p) rng =
        query h t rng @
          (if intersects (bounding_box (root t)) rng \<and> intersects rng (bbox (h p))
           then [p] else [])"
    by (cases "root t")
       (simp add: query_def RTree_insert_def RTreeNode_insert_leaf fold_push_filter)
qed

theorem query_prefix_after_insert_witness:
  "is_leaf (root (index_of store3 [1, 2])) \<and>
   prefix (query store3 (index_of store3 [1, 2]) (mkRectangle 0 0 100 100))
          (query store3 (RTree_insert store3 (index_of store3 [1, 2]) 3) (mkRectangle 0 0 100 100)) \<and>
   query store3 (RTree_insert store3 (index_of store3 [1, 2]) 3) (mkRectangle 0 0 100 100) =
     query store3 (index_of store3 [1, 2]) (mkRectangle 0 0 100 100) @ [3]"
proof -
  have l: "is_leaf (root (index_of store3 [1, 2]))"
          "bounding_box (root (index_of store3 [1, 2])) = mkRectangle 0 0 100 100"
    by (simp_all add: root_index_of)
  have i: "intersects (mkRectangle 0 0 100 100) (mkRectangle 0 0 100 100)"
          "intersects (mkRectangle 0 0 100 100) (bbox (store3 3))"
    by (simp_all add: intersects_def mkRectangle_def store3_def listing_def)
  show ?thesis
    using query_prefix_after_insert [of store3 "index_of store3 [1, 2]" "mkRectangle 0 0 100 100" 3]
      l i
    by simp
qed

text \<open>
  Claim C10 (\<open>queryNear\<close> can return a listing farther than the radius). There are an
  index and a call of \<open>queryNearLocation\<close> whose result contains a listing whose exact
  centroid distance from the point is greater than the radius: the listing with the box
  \<open>(4,-1,7.8,1)\<close> has its centroid at distance 5.9 from the origin and is returned by
  the search of radius 5 around it, in arithmetic without rounding error. So is the
  listing with the box \<open>(4,-1,7,1)\<close>, at distance 5.5, on every platform that computes
  the corners \<open>-5\<close> and \<open>5\<close> of the square and the distance 5.5, all of them doubles,
  without error.
\<close>

theorem queryNear_beyond_radius:
  "queryNearLocation (exact_platform f) (store_of (listing 4 (-1) 7.8 1))
     (index_of (store_of (listing 4 (-1) 7.8 1)) [0]) 0 0 5 200000 0 0 = [0] \<and>
   centroid_distance 0 0 (bbox (store_of (listing 4 (-1) 7.8 1) 0)) = 5.9 \<and>
   (\<exists>h ps x y radius max_price min_area min_bedrooms p.
      p \<in> set (queryNearLocation (exact_platform f) h (index_of h ps) x y radius
                  max_price min_area min_bedrooms) \<and>
      radius < centroid_distance x y (bbox (h p))) \<and>
   (square_exact A 0 0 5 \<and>
    computed_centroid_distance A 0 0 (mkRectangle 4 (-1) 7 1) = 5.5 \<longrightarrow>
      queryNearLocation A (store_of (listing 4 (-1) 7 1))
        (index_of (store_of (listing 4 (-1) 7 1)) [0]) 0 0 5 200000 0 0 = [0] \<and>
      centroid_distance 0 0 (bbox (store_of (listing 4 (-1) 7 1) 0)) = 5.5 \<and>
      (\<exists>h ps x y radius max_price min_area min_bedrooms p.
         p \<in> set (queryNearLocation A h (index_of h ps) x y radius
                     max_price min_area min_bedrooms) \<and>
         radius < centroid_distance x y (bbox (h p))))"
proof -
  let ?h = "store_of (listing 4 (-1) 7.8 1)"
  let ?g = "store_of (listing 4 (-1) 7 1)"
  have q: "queryNearLocation (exact_platform f) ?h (index_of ?h [0]) 0 0 5 200000 0 0 = [0]"
    by (rule queryNear_5_9)
  have d: "centroid_distance 0 0 (bbox (?h 0)) = 5.9"
    using centroid_distance_5_9 by (simp add: store_of_def listing_def)
  have "0 \<in> set (queryNearLocation (exact_platform f) ?h (index_of ?h [0]) 0 0 5 200000 0 0)"
    unfolding q by simp
  moreover have "5 < centroid_distance 0 0 (bbox (?h 0))"
    unfolding d by simp
  ultimately have e: "\<exists>h ps x y radius max_price min_area min_bedrooms p.
      p \<in> set (queryNearLocation (exact_platform f) h (index_of h ps) x y radius
                  max_price min_area min_bedrooms) \<and>
      radius < centroid_distance x y (bbox (h p))"
    by blast
  have d': "centroid_distance 0 0 (bbox (?g 0)) = 5.5"
    using centroid_distance_5_5 by (simp add: store_of_def listing_def)
  have r: "queryNearLocation A ?g (index_of ?g [0]) 0 0 5 200000 0 0 = [0] \<and>
      centroid_distance 0 0 (bbox (?g 0)) = 5.5 \<and>
      (\<exists>h ps x y radius max_price min_area min_bedrooms p.
         p \<in> set (queryNearLocation A h (index_of h ps) x y radius
                     max_price min_area min_bedrooms) \<and>
         radius < centroid_distance x y (bbox (h p)))"
    if "square_exact A 0 0 5 \<and> computed_centroid_distance A 0 0 (mkRectangle 4 (-1) 7 1) = 5.5"
  proof -
    have q': "queryNearLocation A ?g (index_of ?g [0]) 0 0 5 200000 0 0 = [0]"
      using that by (intro queryNear_5_5) simp_all
    have "0 \<in> set (queryNearLocation A ?g (index_of ?g [0]) 0 0 5 200000 0 0)"
      unfolding q' by simp
    moreover have "5 < centroid_distance 0 0 (bbox (?g 0))"
      unfolding d' by simp
    ultimately have "\<exists>h ps x y radius max_price min_area min_bedrooms p.
         p \<in> set (queryNearLocation A h (index_of h ps) x y radius
                     max_price min_area min_bedrooms) \<and>
         radius < centroid_distance x y (bbox (h p))"
      by blast
    with q' d' show ?thesis by blast
  qed
  from q d e r show ?thesis by blast
qed

theorem queryNear_beyond_radius_witness:
  "square_exact x86_exact 0 0 5 \<and>
   computed_centroid_distance x86_exact 0 0 (mkRectangle 4 (-1) 7 1) = 5.5 \<and>
   queryNearLocation x86_exact (store_of (listing 4 (-1) 7 1))
     (index_of (store_of (listing 4 (-1) 7 1)) [0]) 0 0 5 200000 0 0 = [0] \<and>
   centroid_distance 0 0 (bbox (store_of (listing 4 (-1) 7 1) 0)) = 5.5"
proof -
  have sq: "square_exact x86_exact 0 0 5"
    unfolding x86_exact_def by (rule exact_square_exact)
  have c: "computed_centroid_distance x86_exact 0 0 (mkRectangle 4 (-1) 7 1) = 5.5"
    unfolding x86_exact_def exact_computed_centroid_distance by (rule centroid_distance_5_5)
  show ?thesis
    using queryNear_beyond_radius [of "\<lambda>r. 0" x86_exact] sq c by blast
qed

end
